theory Spec2Isabelle
  imports Main
begin

section \<open>The read-through cache proxy (package cacheproxy)\<close>

text \<open>
  A shallow embedding of the Go package \<^verbatim>\<open>cacheproxy\<close>: the stored value
  \<^verbatim>\<open>StringView\<close>, the Redis adapter \<^verbatim>\<open>RedisCache\<close> and the proxy \<^verbatim>\<open>CacheProxy\<close>.

  Conventions of the embedding.
  \<^item> A \<^verbatim>\<open>time.Time\<close> is the number of nanoseconds since Go's zero instant, a
    \<^verbatim>\<open>time.Duration\<close> a number of nanoseconds, both of type \<open>int\<close>.
  \<^item> \<^verbatim>\<open>time.Now()\<close> reads the field \<open>now\<close> of the world the operation runs in.
  \<^item> An \<^verbatim>\<open>error\<close> result is an \<open>error option\<close> (\<open>None\<close> is \<^verbatim>\<open>nil\<close>); a panic is
    the outcome \<open>Panic\<close>.
  \<^item> Everything an operation does to its collaborators (Redis commands, calls of the
    origin getter, logged errors, goroutines started) is appended to the \<open>trace\<close> of the
    world, in program order.
\<close>

subsection \<open>Stored value\<close>

type_synonym time = int
type_synonym duration = int

record StringView =
  Ctime :: time
  NeedFastRequery :: bool
  IsNil :: bool
  Data :: string

text \<open>The zero value \<^verbatim>\<open>StringView{}\<close>.\<close>

definition StringView0 :: StringView where
  "StringView0 = \<lparr>Ctime = 0, NeedFastRequery = False, IsNil = False, Data = ''''\<rparr>"

definition IsZero :: "time \<Rightarrow> bool" where
  "IsZero t = (t = 0)"

definition Add :: "time \<Rightarrow> duration \<Rightarrow> time" where
  "Add t d = t + d"

definition Before :: "time \<Rightarrow> time \<Rightarrow> bool" where
  "Before t u = (t < u)"

text \<open>\<^verbatim>\<open>StringView.IsExpire\<close>; the last argument is the value of \<^verbatim>\<open>time.Now()\<close>.\<close>

definition IsExpire :: "StringView \<Rightarrow> duration \<Rightarrow> duration \<Rightarrow> time \<Rightarrow> bool" where
  "IsExpire v normalOffset fastOffset now_t =
     (if IsZero (Ctime v) then False
      else let offset = (if NeedFastRequery v then fastOffset else normalOffset)
           in if Before (Add (Ctime v) offset) now_t then True else False)"

definition String :: "StringView \<Rightarrow> string" where
  "String v = Data v"

definition CheckNil :: "StringView \<Rightarrow> bool" where
  "CheckNil v = IsNil v"

subsection \<open>Errors, contexts and the refresh policy\<close>

text \<open>
  The error values the package can see: its own sentinels \<^verbatim>\<open>ErrInvalidKey\<close>,
  \<^verbatim>\<open>ErrMismatchedPair\<close> and \<^verbatim>\<open>fastRequeryErr\<close>, the client's \<^verbatim>\<open>redis.Nil\<close>, and
  any other error (an I/O failure of the store, a decoding failure, an error of the origin
  getter), identified by its message.
\<close>

datatype error = ErrInvalidKey | ErrMismatchedPair | FastRequeryErr | RedisNil | Failure string

fun Error :: "error \<Rightarrow> string" where
  "Error ErrInvalidKey = ''empty key''"
| "Error ErrMismatchedPair = '' keys and values mismatch''"
| "Error FastRequeryErr = ''need fast requery''"
| "Error RedisNil = ''redis: nil''"
| "Error (Failure m) = m"

text \<open>
  A \<^verbatim>\<open>context.Context\<close> is either \<^verbatim>\<open>context.Background()\<close> or a context of the
  caller's request, named by a number.
\<close>

datatype ctx = Background | Request nat

datatype 'a outcome = Return 'a | Panic string

record CacheContext =
  NeedForceRefresh :: bool
  NeedCacheRefresh :: bool
  RefreshOffset :: duration
  FastRefreshOffset :: duration
  ExpiredTime :: duration
  EmptyExpiredTime :: duration

text \<open>
  \<^verbatim>\<open>SingleGetter.Get(ctx, key)\<close> returns the payload, the fast-requery flag and an error.
\<close>

type_synonym SingleGetter = "ctx \<Rightarrow> string \<Rightarrow> string \<times> bool \<times> error option"

subsection \<open>The Redis client and the world\<close>

text \<open>
  The text stored under a Redis key is kept as what the JSON library makes of it:
  \<open>Json v\<close> is a text that decodes to the \<^verbatim>\<open>StringView\<close> \<open>v\<close> (the text that encoding
  \<open>v\<close> gives is one), \<open>Undecodable s\<close> is a text \<open>s\<close> that does not decode.
\<close>

datatype rval = Json StringView | Undecodable string

datatype cmd = GET ctx string | SET ctx string rval duration | DEL ctx string

datatype client = Client

record RedisCache =
  rdb :: "client option"

record CacheProxy =
  cache :: RedisCache

text \<open>
  The two goroutines \<^verbatim>\<open>GetHit\<close> starts: the write-back after a miss (the closure holds
  \<open>p\<close>, \<open>c\<close>, \<open>key\<close>, \<open>data\<close>, \<open>needFastRequery\<close>) and the refresh of a stale hit (the closure
  holds \<open>p\<close>, \<open>c\<close>, \<open>key\<close>, \<open>getter\<close>).
\<close>

datatype task =
    WriteBack CacheProxy CacheContext string string bool
  | Refresh CacheProxy CacheContext string SingleGetter

datatype event = Redis cmd | OriginGet ctx string | LogError string | Go task

text \<open>
  The world: the keys of the Redis server with the expiration each was written with,
  the failure (if any) with which the server answers every command, the clock, and the
  trace of what has been done so far.
\<close>

record world =
  kv :: "string \<Rightarrow> (rval \<times> duration) option"
  fault :: "error option"
  now :: time
  trace :: "event list"

definition emit :: "event \<Rightarrow> world \<Rightarrow> world" where
  "emit e w = w\<lparr>trace := trace w @ [e]\<rparr>"

text \<open>\<^verbatim>\<open>rdb.Get(ctx, key).Result()\<close>: the text and an error, \<^verbatim>\<open>redis.Nil\<close> for a missing key.\<close>

definition rdb_Get :: "ctx \<Rightarrow> string \<Rightarrow> world \<Rightarrow> (rval \<times> error option) \<times> world" where
  "rdb_Get c key w =
     (let w' = emit (Redis (GET c key)) w in
      case fault w of
        Some e \<Rightarrow> ((Undecodable '''', Some e), w')
      | None \<Rightarrow>
          (case kv w key of
             None \<Rightarrow> ((Undecodable '''', Some RedisNil), w')
           | Some (v, ttl) \<Rightarrow> ((v, None), w')))"

text \<open>\<^verbatim>\<open>rdb.Set(ctx, key, value, expiration).Result()\<close>.\<close>

definition rdb_Set :: "ctx \<Rightarrow> string \<Rightarrow> rval \<Rightarrow> duration \<Rightarrow> world \<Rightarrow> error option \<times> world" where
  "rdb_Set c key v expiration w =
     (let w' = emit (Redis (SET c key v expiration)) w in
      case fault w of
        Some e \<Rightarrow> (Some e, w')
      | None \<Rightarrow> (None, w'\<lparr>kv := (kv w)(key \<mapsto> (v, expiration))\<rparr>))"

text \<open>\<^verbatim>\<open>rdb.Del(ctx, key).Result()\<close>: the number of keys removed and an error.\<close>

definition rdb_Del :: "ctx \<Rightarrow> string \<Rightarrow> world \<Rightarrow> (int \<times> error option) \<times> world" where
  "rdb_Del c key w =
     (let w' = emit (Redis (DEL c key)) w in
      case fault w of
        Some e \<Rightarrow> ((0, Some e), w')
      | None \<Rightarrow>
          ((case kv w key of None \<Rightarrow> 0 | Some _ \<Rightarrow> 1, None), w'\<lparr>kv := (kv w)(key := None)\<rparr>))"

text \<open>
  \<^verbatim>\<open>sonic.MarshalString\<close> and \<^verbatim>\<open>sonic.UnmarshalString\<close>. Encoding a \<^verbatim>\<open>StringView\<close> whose
  \<open>Ctime\<close> is a reading of the clock does not fail; the error branch of the caller is kept
  all the same.
\<close>

definition sonic_MarshalString :: "StringView \<Rightarrow> error + rval" where
  "sonic_MarshalString v = Inr (Json v)"

definition sonic_UnmarshalString :: "rval \<Rightarrow> error + StringView" where
  "sonic_UnmarshalString t =
     (case t of Json v \<Rightarrow> Inr v | Undecodable s \<Rightarrow> Inl (Failure ''sonic: decode error''))"

text \<open>\<^verbatim>\<open>logger.Error\<close>, with the logger initialised.\<close>

definition logger_Error :: "string \<Rightarrow> world \<Rightarrow> world" where
  "logger_Error msg w = emit (LogError msg) w"

subsection \<open>The Redis adapter\<close>

definition NewRedisAdaptor :: "client option \<Rightarrow> RedisCache" where
  "NewRedisAdaptor r = \<lparr>rdb = r\<rparr>"

definition RedisCache_Get ::
  "RedisCache \<Rightarrow> ctx \<Rightarrow> string \<Rightarrow> world \<Rightarrow> (StringView \<times> bool \<times> error option) outcome \<times> world" where
  "RedisCache_Get c cx key w =
     (if rdb c = None then (Panic ''empty redis client'', w)
      else
        let res = StringView0 in
        if int (length key) < 0 then (Return (res, False, Some ErrInvalidKey), w)
        else
          (case rdb_Get cx key w of
             ((result, Some err), w1) \<Rightarrow>
               if err = RedisNil then (Return (StringView0\<lparr>IsNil := True\<rparr>, False, None), w1)
               else (Return (res, False, Some err), w1)
           | ((result, None), w1) \<Rightarrow>
               (case sonic_UnmarshalString result of
                  Inl err \<Rightarrow> (Return (StringView0\<lparr>IsNil := True\<rparr>, False, Some err), w1)
                | Inr res' \<Rightarrow> (Return (res', True, None), w1))))"

definition RedisCache_Set ::
  "RedisCache \<Rightarrow> ctx \<Rightarrow> string \<Rightarrow> StringView \<Rightarrow> duration \<Rightarrow> duration \<Rightarrow> world
     \<Rightarrow> error option outcome \<times> world" where
  "RedisCache_Set c cx key val expiredTime emptyExpiredTime w =
     (if rdb c = None then (Panic ''empty redis client'', w)
      else if int (length key) \<le> 0 then (Return (Some ErrInvalidKey), w)
      else
        (case sonic_MarshalString val of
           Inl err \<Rightarrow> (Return (Some err), w)
         | Inr valStr \<Rightarrow>
             let expired = (if length (Data val) = 0 then emptyExpiredTime else expiredTime) in
             (case rdb_Set cx key valStr expired w of
                (err, w1) \<Rightarrow> (Return err, w1))))"

definition RedisCache_Remove ::
  "RedisCache \<Rightarrow> ctx \<Rightarrow> string \<Rightarrow> world \<Rightarrow> error option outcome \<times> world" where
  "RedisCache_Remove c cx key w =
     (if rdb c = None then (Panic ''empty redis client'', w)
      else if int (length key) \<le> 0 then (Return (Some ErrInvalidKey), w)
      else
        (case rdb_Del cx key w of
           ((n, err), w1) \<Rightarrow> (Return err, w1)))"

subsection \<open>The proxy\<close>

definition newCacheProxy :: "client option \<Rightarrow> CacheProxy" where
  "newCacheProxy r = \<lparr>cache = NewRedisAdaptor r\<rparr>"

text \<open>
  \<^verbatim>\<open>getResource\<close>. \<^verbatim>\<open>getGroup.Do(key, fn)\<close>, for a caller that finds no call in flight for the
  key, runs \<open>fn\<close> and hands back its two results; the first is an \<^verbatim>\<open>interface{}\<close>, here a
  \<open>string option\<close> with \<open>None\<close> for \<^verbatim>\<open>nil\<close>. The assertion \<^verbatim>\<open>val.(string)\<close> comes before
  the test of \<open>err\<close> and panics on \<^verbatim>\<open>nil\<close>.
\<close>

definition getResource ::
  "ctx \<Rightarrow> string \<Rightarrow> SingleGetter \<Rightarrow> world \<Rightarrow> (string \<times> bool \<times> error option) outcome \<times> world" where
  "getResource cx key getter w =
     (let w1 = emit (OriginGet cx key) w;
          (val, err) =
            (case getter cx key of
               (data, needFastRequery, Some getErr) \<Rightarrow> (None, Some getErr)
             | (data, needFastRequery, None) \<Rightarrow>
                 if needFastRequery then (Some data, Some FastRequeryErr)
                 else (Some data, None))
      in case val of
           None \<Rightarrow> (Panic ''interface conversion: interface {} is nil, not string'', w1)
         | Some res \<Rightarrow>
             (case err of
                Some e \<Rightarrow>
                  if e = FastRequeryErr then (Return (res, True, None), w1)
                  else (Return ('''', False, Some e), w1)
              | None \<Rightarrow> (Return (res, False, None), w1)))"

definition setData ::
  "CacheProxy \<Rightarrow> ctx \<Rightarrow> CacheContext \<Rightarrow> string \<Rightarrow> string \<Rightarrow> bool \<Rightarrow> world
     \<Rightarrow> error option outcome \<times> world" where
  "setData p cx c key data needFastRequery w =
     (let sv = \<lparr>Ctime = now w, NeedFastRequery = needFastRequery, IsNil = False, Data = data\<rparr>
      in RedisCache_Set (cache p) cx key sv (ExpiredTime c) (EmptyExpiredTime c) w)"

definition go :: "task \<Rightarrow> world \<Rightarrow> world" where
  "go t w = emit (Go t) w"

definition GetHit ::
  "CacheProxy option \<Rightarrow> ctx \<Rightarrow> CacheContext \<Rightarrow> string \<Rightarrow> SingleGetter \<Rightarrow> world
     \<Rightarrow> (string \<times> bool \<times> error option) outcome \<times> world" where
  "GetHit p cx c key getter w =
     (case p of
        None \<Rightarrow> (Panic ''empty cacheProxy'', w)
      | Some px \<Rightarrow>
          if length key = 0 then (Return ('''', False, None), w)
          else if NeedForceRefresh c then
            (case getResource cx key getter w of
               (Panic m, w1) \<Rightarrow> (Panic m, w1)
             | (Return (data, needFastRequery, Some err), w1) \<Rightarrow> (Return ('''', False, Some err), w1)
             | (Return (data, needFastRequery, None), w1) \<Rightarrow>
                 (case setData px Background c key data needFastRequery w1 of
                    (Panic m, w2) \<Rightarrow> (Panic m, w2)
                  | (Return (Some err), w2) \<Rightarrow> (Return ('''', False, Some err), w2)
                  | (Return None, w2) \<Rightarrow> (Return (data, False, None), w2)))
          else
            (case RedisCache_Get (cache px) cx key w of
               (Panic m, w1) \<Rightarrow> (Panic m, w1)
             | (Return (sv, exist, Some err), w1) \<Rightarrow> (Return ('''', False, Some err), w1)
             | (Return (sv, exist, None), w1) \<Rightarrow>
                 if \<not> exist then
                   (case getResource cx key getter w1 of
                      (Panic m, w2) \<Rightarrow> (Panic m, w2)
                    | (Return (data, needFastRequery, Some err), w2) \<Rightarrow>
                        (Return ('''', False, Some err), w2)
                    | (Return (data, needFastRequery, None), w2) \<Rightarrow>
                        (Return (data, False, None), go (WriteBack px c key data needFastRequery) w2))
                 else if NeedCacheRefresh c then
                   (if \<not> IsExpire sv (RefreshOffset c) (FastRefreshOffset c) (now w1)
                    then (Return (String sv, True, None), w1)
                    else (Return (String sv, True, None), go (Refresh px c key getter) w1))
                 else (Return (String sv, True, None), w1)))"

definition CacheProxy_Set ::
  "CacheProxy option \<Rightarrow> ctx \<Rightarrow> CacheContext \<Rightarrow> string \<Rightarrow> string \<Rightarrow> world
     \<Rightarrow> error option outcome \<times> world" where
  "CacheProxy_Set p cx c key val w =
     (case p of
        None \<Rightarrow> (Panic ''empty cacheProxy'', w)
      | Some px \<Rightarrow> setData px cx c key val False w)"

definition CacheProxy_Remove ::
  "CacheProxy option \<Rightarrow> ctx \<Rightarrow> CacheContext \<Rightarrow> string \<Rightarrow> world \<Rightarrow> error option outcome \<times> world" where
  "CacheProxy_Remove p cx c key w =
     (case p of
        None \<Rightarrow> (Panic ''empty cacheProxy'', w)
      | Some px \<Rightarrow> RedisCache_Remove (cache px) cx key w)"

text \<open>
  Running a goroutine that \<^verbatim>\<open>GetHit\<close> started, in the world it finds when it is
  scheduled. A goroutine returns nothing; a panic in it is not recovered.
\<close>

fun run :: "task \<Rightarrow> world \<Rightarrow> unit outcome \<times> world" where
  "run (WriteBack p c key data needFastRequery) w =
     (case setData p Background c key data needFastRequery w of
        (Panic m, w1) \<Rightarrow> (Panic m, w1)
      | (Return (Some setErr), w1) \<Rightarrow>
          (Return (), logger_Error (''cacheProxy setErr:'' @ Error setErr) w1)
      | (Return None, w1) \<Rightarrow> (Return (), w1))"
| "run (Refresh p c key getter) w =
     (let newCtx = Background in
      case getResource newCtx key getter w of
        (Panic m, w1) \<Rightarrow> (Panic m, w1)
      | (Return (data, needFastRequery, err2), w1) \<Rightarrow>
          let w2 = (case err2 of
                      Some e \<Rightarrow> logger_Error (''cacheProxy refresh getResource err:'' @ Error e) w1
                    | None \<Rightarrow> w1)
          in (case setData p newCtx c key data needFastRequery w2 of
                (Panic m, w3) \<Rightarrow> (Panic m, w3)
              | (Return (Some e), w3) \<Rightarrow>
                  (Return (), logger_Error (''cacheProxy refresh setData err:'' @ Error e) w3)
              | (Return None, w3) \<Rightarrow> (Return (), w3)))"

text \<open>The events an operation appended: the trace after it, without the trace before it.\<close>

definition appended :: "world \<Rightarrow> world \<Rightarrow> event list" where
  "appended w w' = drop (length (trace w)) (trace w')"

text \<open>
  A write of the proxy as it should reach the store at time \<open>t\<close>: the text decodes to a
  value that is not nil and was created at \<open>t\<close>. Events other than \<^verbatim>\<open>SET\<close> pass.
\<close>

fun proxy_write :: "time \<Rightarrow> event \<Rightarrow> bool" where
  "proxy_write t (Redis (SET c k (Json v) ttl)) = (\<not> IsNil v \<and> Ctime v = t)"
| "proxy_write t (Redis (SET c k (Undecodable s) ttl)) = False"
| "proxy_write t e = True"

text \<open>
  \<open>w'\<close> continues \<open>w\<close>: the clock is the same, the trace of \<open>w\<close> is a prefix of the trace
  of \<open>w'\<close>, and every event appended is acceptable to \<open>proxy_write\<close> at the time of \<open>w\<close>.
\<close>

definition only_proxy_writes :: "world \<Rightarrow> world \<Rightarrow> bool" where
  "only_proxy_writes w w' =
     (now w' = now w \<and> take (length (trace w)) (trace w') = trace w \<and>
      list_all (proxy_write (now w)) (appended w w'))"

text \<open>
  Two origin getters (values of \<^verbatim>\<open>SingleGetterFunc\<close>) used as concrete inputs: one that
  answers every key with an error, one that answers every key with a payload and a flag.
\<close>

definition origin_fails :: "error \<Rightarrow> SingleGetter" where
  "origin_fails e cx key = ('''', False, Some e)"

definition origin_gives :: "string \<Rightarrow> bool \<Rightarrow> SingleGetter" where
  "origin_gives data needFastRequery cx key = (data, needFastRequery, None)"

lemmas model_defs =
  GetHit_def getResource_def setData_def RedisCache_Get_def RedisCache_Set_def
  RedisCache_Remove_def rdb_Get_def rdb_Set_def rdb_Del_def sonic_MarshalString_def
  sonic_UnmarshalString_def emit_def go_def logger_Error_def CacheProxy_Set_def
  CacheProxy_Remove_def newCacheProxy_def NewRedisAdaptor_def StringView0_def String_def
  origin_fails_def origin_gives_def Let_def

lemmas time_defs = IsExpire_def IsZero_def Add_def Before_def

section \<open>Staleness\<close>

text \<open>
  C6. \<^verbatim>\<open>IsExpire\<close> is false whenever \<open>Ctime\<close> is the zero instant, whatever the
  offsets; otherwise it takes the fast offset when \<open>NeedFastRequery\<close> is set and the normal
  offset when it is not, and is true exactly when \<open>Ctime\<close> plus that offset lies strictly
  before the current time.
\<close>

theorem IsExpire_spec:
  "(Ctime v = 0 \<longrightarrow> \<not> IsExpire v normalOffset fastOffset t) \<and>
   (Ctime v \<noteq> 0 \<and> NeedFastRequery v \<longrightarrow>
      IsExpire v normalOffset fastOffset t = (Ctime v + fastOffset < t)) \<and>
   (Ctime v \<noteq> 0 \<and> \<not> NeedFastRequery v \<longrightarrow>
      IsExpire v normalOffset fastOffset t = (Ctime v + normalOffset < t))"
  by (simp add: time_defs)

text \<open>
  The three cases at concrete values: a value never written is not stale although both
  offsets have long passed; a value written at 10 with the flag set is stale at 20 under
  fast offset 5 although the normal offset 50 has not passed; the same value without the
  flag is not.
\<close>

theorem IsExpire_spec_witness:
  "(Ctime \<lparr>Ctime = 0, NeedFastRequery = True, IsNil = False, Data = ''a''\<rparr> = 0 \<and>
    \<not> IsExpire \<lparr>Ctime = 0, NeedFastRequery = True, IsNil = False, Data = ''a''\<rparr> 5 1 100) \<and>
   (Ctime \<lparr>Ctime = 10, NeedFastRequery = True, IsNil = False, Data = ''a''\<rparr> \<noteq> 0 \<and>
    IsExpire \<lparr>Ctime = 10, NeedFastRequery = True, IsNil = False, Data = ''a''\<rparr> 50 5 20) \<and>
   (Ctime \<lparr>Ctime = 10, NeedFastRequery = False, IsNil = False, Data = ''a''\<rparr> \<noteq> 0 \<and>
    \<not> IsExpire \<lparr>Ctime = 10, NeedFastRequery = False, IsNil = False, Data = ''a''\<rparr> 50 5 20)"
  using IsExpire_spec [of "\<lparr>Ctime = 0, NeedFastRequery = True, IsNil = False, Data = ''a''\<rparr>" 5 1 100]
        IsExpire_spec [of "\<lparr>Ctime = 10, NeedFastRequery = True, IsNil = False, Data = ''a''\<rparr>" 50 5 20]
        IsExpire_spec [of "\<lparr>Ctime = 10, NeedFastRequery = False, IsNil = False, Data = ''a''\<rparr>" 50 5 20]
  by simp

section \<open>The origin fetch and the store write\<close>

text \<open>
  When the getter succeeds, \<^verbatim>\<open>getResource\<close> calls it once and returns its payload and flag.
  When the getter returns an error, the closure hands \<^verbatim>\<open>nil\<close> to \<^verbatim>\<open>Do\<close> and the type
  assertion panics before the error is looked at.
\<close>

lemma getResource_ok:
  "getter cx key = (d, f, None) \<Longrightarrow>
   getResource cx key getter w = (Return (d, f, None), emit (OriginGet cx key) w)"
  by (simp add: getResource_def)

lemma getResource_error:
  "getter cx key = (d, f, Some e) \<Longrightarrow>
   getResource cx key getter w =
     (Panic ''interface conversion: interface {} is nil, not string'', emit (OriginGet cx key) w)"
  by (simp add: getResource_def)

lemma getResource_never_returns_error:
  "fst (getResource cx key getter w) \<noteq> Return (d, f, Some e)"
  by (auto simp: getResource_def Let_def split: prod.splits option.splits)

text \<open>
  \<^verbatim>\<open>setData\<close> on a non-empty key issues one \<^verbatim>\<open>SET\<close>, whose value is stamped with the
  clock and whose expiration is chosen by the emptiness of the payload.
\<close>

lemma setData_eq:
  "rdb (cache px) \<noteq> None \<Longrightarrow> key \<noteq> [] \<Longrightarrow>
   setData px cx c key d f w =
     (let sv = \<lparr>Ctime = now w, NeedFastRequery = f, IsNil = False, Data = d\<rparr>;
          ttl = (if d = [] then EmptyExpiredTime c else ExpiredTime c);
          w1 = emit (Redis (SET cx key (Json sv) ttl)) w
      in case fault w of
           None \<Rightarrow> (Return None, w1\<lparr>kv := (kv w)(key \<mapsto> (Json sv, ttl))\<rparr>)
         | Some e \<Rightarrow> (Return (Some e), w1))"
  by (simp add: setData_def RedisCache_Set_def sonic_MarshalString_def rdb_Set_def Let_def
      split: option.splits)

lemma setData_empty_key:
  "rdb (cache px) \<noteq> None \<Longrightarrow> setData px cx c [] d f w = (Return (Some ErrInvalidKey), w)"
  by (auto simp: setData_def RedisCache_Set_def)

lemma setData_readback:
  assumes "setData px cx c key d f w = (Return None, w')"
  shows "RedisCache_Get (cache px) cx' key w' =
           (Return (\<lparr>Ctime = now w, NeedFastRequery = f, IsNil = False, Data = d\<rparr>, True, None),
            emit (Redis (GET cx' key)) w')"
  using assms
  by (auto simp: setData_def RedisCache_Set_def RedisCache_Get_def sonic_MarshalString_def
      sonic_UnmarshalString_def rdb_Set_def rdb_Get_def emit_def Let_def
      split: option.splits if_splits)

text \<open>The adapter reports a miss exactly when the client answers \<^verbatim>\<open>redis.Nil\<close>.\<close>

lemma RedisCache_Get_miss:
  assumes "RedisCache_Get rc cx key w = (Return (sv, False, None), w1)"
  shows "sv = StringView0\<lparr>IsNil := True\<rparr> \<and> w1 = emit (Redis (GET cx key)) w \<and>
         rdb rc \<noteq> None \<and> (fault w = Some RedisNil \<or> fault w = None \<and> kv w key = None)"
  using assms
  by (auto simp: RedisCache_Get_def rdb_Get_def sonic_UnmarshalString_def Let_def
      split: if_splits option.splits prod.splits sum.splits rval.splits)

lemma RedisCache_Get_found:
  assumes "RedisCache_Get rc cx key w = (Return (sv, True, None), w1)"
  shows "w1 = emit (Redis (GET cx key)) w \<and> rdb rc \<noteq> None \<and> fault w = None \<and>
         (\<exists>ttl. kv w key = Some (Json sv, ttl))"
  using assms
  by (auto simp: RedisCache_Get_def rdb_Get_def sonic_UnmarshalString_def Let_def
      split: if_splits option.splits prod.splits sum.splits rval.splits)

section \<open>What the operations append to the trace\<close>

lemma only_proxy_writes_iff:
  "only_proxy_writes w w' \<longleftrightarrow>
     (\<exists>es. trace w' = trace w @ es \<and> list_all (proxy_write (now w)) es \<and> now w' = now w)"
proof
  assume h: "only_proxy_writes w w'"
  have "trace w' = take (length (trace w)) (trace w') @ drop (length (trace w)) (trace w')"
    by simp
  with h have "trace w' = trace w @ appended w w'"
    by (simp add: only_proxy_writes_def appended_def)
  with h show "\<exists>es. trace w' = trace w @ es \<and> list_all (proxy_write (now w)) es \<and> now w' = now w"
    by (auto simp: only_proxy_writes_def)
next
  assume "\<exists>es. trace w' = trace w @ es \<and> list_all (proxy_write (now w)) es \<and> now w' = now w"
  then show "only_proxy_writes w w'"
    by (auto simp: only_proxy_writes_def appended_def)
qed

lemma opw_refl: "only_proxy_writes w w"
  by (simp add: only_proxy_writes_iff)

lemma opw_trans: "only_proxy_writes w w1 \<Longrightarrow> only_proxy_writes w1 w2 \<Longrightarrow> only_proxy_writes w w2"
  by (auto simp: only_proxy_writes_iff)

lemma opw_emit: "proxy_write (now w) e \<Longrightarrow> only_proxy_writes w (emit e w)"
  by (simp add: only_proxy_writes_iff emit_def)

lemma opw_appended: "only_proxy_writes w w' \<Longrightarrow> list_all (proxy_write (now w)) (appended w w')"
  by (simp add: only_proxy_writes_def)

lemma opw_setData: "only_proxy_writes w (snd (setData px cx c key d f w))"
  by (auto simp: only_proxy_writes_iff setData_def RedisCache_Set_def sonic_MarshalString_def
      rdb_Set_def emit_def Let_def split: option.splits)

lemma opw_getResource: "only_proxy_writes w (snd (getResource cx key g w))"
  by (auto simp: only_proxy_writes_iff getResource_def emit_def Let_def
      split: option.splits prod.splits)

lemma opw_RedisCache_Get: "only_proxy_writes w (snd (RedisCache_Get rc cx key w))"
  by (auto simp: only_proxy_writes_iff RedisCache_Get_def rdb_Get_def emit_def Let_def
      split: option.splits prod.splits sum.splits)

lemma opw_Set: "only_proxy_writes w (snd (CacheProxy_Set p cx c key v w))"
  by (cases p) (simp_all add: CacheProxy_Set_def opw_refl opw_setData)

lemma opw_GetHit: "only_proxy_writes w (snd (GetHit p cx c key g w))"
proof (cases p)
  case None
  then show ?thesis by (simp add: GetHit_def opw_refl)
next
  case (Some px)
  note p = this
  show ?thesis
  proof (cases "key = []")
    case True
    with p show ?thesis by (simp add: GetHit_def opw_refl)
  next
    case False
    note key = this
    show ?thesis
    proof (cases "NeedForceRefresh c")
      case True
      obtain r1 w1 where g: "getResource cx key g w = (r1, w1)"
        by (cases "getResource cx key g w")
      have e1: "only_proxy_writes w w1"
        using opw_getResource [of w cx key g] g by simp
      show ?thesis
      proof (cases r1)
        case (Panic m)
        with p key True g e1 show ?thesis by (simp add: GetHit_def)
      next
        case (Return x)
        obtain d f eo where x: "x = (d, f, eo)" by (cases x)
        show ?thesis
        proof (cases eo)
          case (Some e)
          with p key True g e1 Return x show ?thesis by (simp add: GetHit_def)
        next
          case None
          obtain r2 w2 where s: "setData px Background c key d f w1 = (r2, w2)"
            by (cases "setData px Background c key d f w1")
          have e2: "only_proxy_writes w1 w2"
            using opw_setData [of w1 px Background c key d f] s by simp
          have "only_proxy_writes w w2" using e1 e2 by (rule opw_trans)
          with p key True g Return x None s show ?thesis
            by (auto simp: GetHit_def split: outcome.splits option.splits)
        qed
      qed
    next
      case False
      note nf = this
      obtain r1 w1 where g: "RedisCache_Get (cache px) cx key w = (r1, w1)"
        by (cases "RedisCache_Get (cache px) cx key w")
      have e1: "only_proxy_writes w w1"
        using opw_RedisCache_Get [of w "cache px" cx key] g by simp
      have go1: "only_proxy_writes w (go t w1)" for t
        using e1 opw_emit [of w1 "Go t"] by (auto simp: go_def intro: opw_trans)
      show ?thesis
      proof (cases r1)
        case (Panic m)
        with p key nf g e1 show ?thesis by (simp add: GetHit_def)
      next
        case (Return x)
        obtain sv ex eo where x: "x = (sv, ex, eo)" by (cases x)
        show ?thesis
        proof (cases eo)
          case (Some e)
          with p key nf g e1 Return x show ?thesis by (simp add: GetHit_def)
        next
          case None
          show ?thesis
          proof (cases ex)
            case True
            with p key nf g e1 Return x None go1 show ?thesis
              by (simp add: GetHit_def)
          next
            case False
            obtain r2 w2 where s: "getResource cx key g w1 = (r2, w2)"
              by (cases "getResource cx key g w1")
            have e2: "only_proxy_writes w1 w2"
              using opw_getResource [of w1 cx key g] s by simp
            have e3: "only_proxy_writes w w2" using e1 e2 by (rule opw_trans)
            have e4: "only_proxy_writes w (go t w2)" for t
              using e3 opw_emit [of w2 "Go t"] by (auto simp: go_def intro: opw_trans)
            from p key nf g Return x None False s e3 e4 show ?thesis
              by (auto simp: GetHit_def split: outcome.splits option.splits)
          qed
        qed
      qed
    qed
  qed
qed

lemma opw_run: "only_proxy_writes w (snd (run t w))"
proof (cases t)
  case (WriteBack px c key d f)
  obtain r1 w1 where s: "setData px Background c key d f w = (r1, w1)"
    by (cases "setData px Background c key d f w")
  have e1: "only_proxy_writes w w1"
    using opw_setData [of w px Background c key d f] s by simp
  have e2: "only_proxy_writes w (logger_Error m w1)" for m
    using e1 opw_emit [of w1 "LogError m"] by (auto simp: logger_Error_def intro: opw_trans)
  from WriteBack s e1 e2 show ?thesis
    by (auto split: outcome.splits option.splits)
next
  case (Refresh px c key g)
  obtain r1 w1 where g: "getResource Background key g w = (r1, w1)"
    by (cases "getResource Background key g w")
  have e1: "only_proxy_writes w w1"
    using opw_getResource [of w Background key g] g by simp
  show ?thesis
  proof (cases r1)
    case (Panic m)
    with Refresh g e1 show ?thesis by simp
  next
    case (Return x)
    obtain d f eo where x: "x = (d, f, eo)" by (cases x)
    define w2 where "w2 = (case eo of
        Some e \<Rightarrow> logger_Error (''cacheProxy refresh getResource err:'' @ Error e) w1
      | None \<Rightarrow> w1)"
    have e2: "only_proxy_writes w w2"
      using e1 opw_emit [of w1 "LogError m" for m]
      by (auto simp: w2_def logger_Error_def split: option.splits intro: opw_trans)
    obtain r3 w3 where s: "setData px Background c key d f w2 = (r3, w3)"
      by (cases "setData px Background c key d f w2")
    have e3: "only_proxy_writes w w3"
      using e2 opw_setData [of w2 px Background c key d f] s by (auto intro: opw_trans)
    have e4: "only_proxy_writes w (logger_Error m w3)" for m
      using e3 opw_emit [of w3 "LogError m"] by (auto simp: logger_Error_def intro: opw_trans)
    from Refresh g Return x s e3 e4 show ?thesis
      by (auto simp: w2_def split: outcome.splits option.splits)
  qed
qed

section \<open>Writes of the proxy\<close>

text \<open>
  C10. Every \<^verbatim>\<open>SET\<close> that the proxy issues (from \<^verbatim>\<open>Set\<close>, from \<^verbatim>\<open>GetHit\<close> under force
  refresh, from the write-back goroutine after a miss, from the refresh goroutine) carries a
  value with \<open>IsNil\<close> false and \<open>Ctime\<close> equal to the clock at the time of the write. So,
  the clock never reading the zero instant, a value that \<^verbatim>\<open>setData\<close> wrote is read back as
  found, not nil, with a non-zero \<open>Ctime\<close>, and \<^verbatim>\<open>IsExpire\<close> on it compares the time of
  the write plus the selected offset with the current time.
\<close>

theorem proxy_writes_wellformed:
  "list_all (proxy_write (now w)) (appended w (snd (CacheProxy_Set p cx c key v w))) \<and>
   list_all (proxy_write (now w)) (appended w (snd (GetHit p cx c key getter w))) \<and>
   list_all (proxy_write (now w)) (appended w (snd (run t w))) \<and>
   (setData px cx c key d f w = (Return None, w') \<and> now w \<noteq> 0 \<longrightarrow>
      fst (RedisCache_Get (cache px) cx' key w') =
        Return (\<lparr>Ctime = now w, NeedFastRequery = f, IsNil = False, Data = d\<rparr>, True, None) \<and>
      \<not> IsZero (now w) \<and>
      IsExpire \<lparr>Ctime = now w, NeedFastRequery = f, IsNil = False, Data = d\<rparr>
          normalOffset fastOffset u =
        (now w + (if f then fastOffset else normalOffset) < u))"
proof -
  have "setData px cx c key d f w = (Return None, w') \<and> now w \<noteq> 0 \<longrightarrow>
      fst (RedisCache_Get (cache px) cx' key w') =
        Return (\<lparr>Ctime = now w, NeedFastRequery = f, IsNil = False, Data = d\<rparr>, True, None) \<and>
      \<not> IsZero (now w) \<and>
      IsExpire \<lparr>Ctime = now w, NeedFastRequery = f, IsNil = False, Data = d\<rparr>
          normalOffset fastOffset u =
        (now w + (if f then fastOffset else normalOffset) < u)"
    by (auto simp: setData_readback time_defs)
  then show ?thesis
    using opw_appended [OF opw_Set] opw_appended [OF opw_GetHit] opw_appended [OF opw_run]
    by blast
qed

text \<open>
  At concrete values: \<^verbatim>\<open>Set\<close> of payload \<open>v\<close> under key \<open>k\<close> at time 1000 issues one
  \<^verbatim>\<open>SET\<close>, which \<open>proxy_write\<close> accepts; \<^verbatim>\<open>setData\<close> returns no error, the clock is not
  zero, and the value is read back as found, with \<open>IsNil\<close> false and \<open>Ctime\<close> 1000; with
  offsets 10 and 5 it is stale at time 1011 and not before.
\<close>

theorem proxy_writes_wellformed_witness:
  "appended \<lparr>kv = map_of [], fault = None, now = 1000, trace = []\<rparr>
     (snd (CacheProxy_Set (Some (newCacheProxy (Some Client))) (Request 1)
        \<lparr>NeedForceRefresh = False, NeedCacheRefresh = False, RefreshOffset = 10,
        FastRefreshOffset = 5, ExpiredTime = 100, EmptyExpiredTime = 20\<rparr>
        ''k'' ''v'' \<lparr>kv = map_of [], fault = None, now = 1000, trace = []\<rparr>)) =
     [Redis (SET (Request 1) ''k'' (Json \<lparr>Ctime = 1000, NeedFastRequery = False, IsNil = False, Data = ''v''\<rparr>) 100)] \<and>
   list_all (proxy_write 1000)
     (appended \<lparr>kv = map_of [], fault = None, now = 1000, trace = []\<rparr>
        (snd (CacheProxy_Set (Some (newCacheProxy (Some Client))) (Request 1)
           \<lparr>NeedForceRefresh = False, NeedCacheRefresh = False, RefreshOffset = 10,
        FastRefreshOffset = 5, ExpiredTime = 100, EmptyExpiredTime = 20\<rparr>
           ''k'' ''v'' \<lparr>kv = map_of [], fault = None, now = 1000, trace = []\<rparr>))) \<and>
   setData (newCacheProxy (Some Client)) (Request 1)
     \<lparr>NeedForceRefresh = False, NeedCacheRefresh = False, RefreshOffset = 10,
        FastRefreshOffset = 5, ExpiredTime = 100, EmptyExpiredTime = 20\<rparr>
     ''k'' ''v'' False \<lparr>kv = map_of [], fault = None, now = 1000, trace = []\<rparr> =
     (Return None,
      \<lparr>kv = map_of [(''k'', (Json \<lparr>Ctime = 1000, NeedFastRequery = False, IsNil = False, Data = ''v''\<rparr>, 100))], fault = None, now = 1000, trace = [Redis (SET (Request 1) ''k'' (Json \<lparr>Ctime = 1000, NeedFastRequery = False, IsNil = False, Data = ''v''\<rparr>) 100)]\<rparr>) \<and>
   (1000::int) \<noteq> 0 \<and>
   fst (RedisCache_Get (cache (newCacheProxy (Some Client))) (Request 2) ''k''
      \<lparr>kv = map_of [(''k'', (Json \<lparr>Ctime = 1000, NeedFastRequery = False, IsNil = False, Data = ''v''\<rparr>, 100))], fault = None, now = 1000, trace = [Redis (SET (Request 1) ''k'' (Json \<lparr>Ctime = 1000, NeedFastRequery = False, IsNil = False, Data = ''v''\<rparr>) 100)]\<rparr>) =
     Return (\<lparr>Ctime = 1000, NeedFastRequery = False, IsNil = False, Data = ''v''\<rparr>, True, None) \<and>
   IsExpire \<lparr>Ctime = 1000, NeedFastRequery = False, IsNil = False, Data = ''v''\<rparr> 10 5 1011 \<and>
   \<not> IsExpire \<lparr>Ctime = 1000, NeedFastRequery = False, IsNil = False, Data = ''v''\<rparr> 10 5 1010"
proof -
  have s: "setData (newCacheProxy (Some Client)) (Request 1)
     \<lparr>NeedForceRefresh = False, NeedCacheRefresh = False, RefreshOffset = 10,
        FastRefreshOffset = 5, ExpiredTime = 100, EmptyExpiredTime = 20\<rparr>
     ''k'' ''v'' False \<lparr>kv = map_of [], fault = None, now = 1000, trace = []\<rparr> =
     (Return None,
      \<lparr>kv = map_of [(''k'', (Json \<lparr>Ctime = 1000, NeedFastRequery = False, IsNil = False, Data = ''v''\<rparr>, 100))], fault = None, now = 1000, trace = [Redis (SET (Request 1) ''k'' (Json \<lparr>Ctime = 1000, NeedFastRequery = False, IsNil = False, Data = ''v''\<rparr>) 100)]\<rparr>)"
    by (simp add: model_defs)
  have a: "appended \<lparr>kv = map_of [], fault = None, now = 1000, trace = []\<rparr>
     (snd (CacheProxy_Set (Some (newCacheProxy (Some Client))) (Request 1)
        \<lparr>NeedForceRefresh = False, NeedCacheRefresh = False, RefreshOffset = 10,
        FastRefreshOffset = 5, ExpiredTime = 100, EmptyExpiredTime = 20\<rparr>
        ''k'' ''v'' \<lparr>kv = map_of [], fault = None, now = 1000, trace = []\<rparr>)) =
     [Redis (SET (Request 1) ''k'' (Json \<lparr>Ctime = 1000, NeedFastRequery = False, IsNil = False, Data = ''v''\<rparr>) 100)]"
    by (simp add: model_defs appended_def)
  note t = proxy_writes_wellformed [where w = "\<lparr>kv = map_of [], fault = None, now = 1000, trace = []\<rparr>"
      and p = "(Some (newCacheProxy (Some Client)))" and px = "(newCacheProxy (Some Client))" and cx = "(Request 1)"
      and c = "\<lparr>NeedForceRefresh = False, NeedCacheRefresh = False, RefreshOffset = 10,
        FastRefreshOffset = 5, ExpiredTime = 100, EmptyExpiredTime = 20\<rparr>"
      and key = "''k''" and v = "''v''" and d = "''v''" and f = False and cx' = "Request 2"
      and w' = "\<lparr>kv = map_of [(''k'', (Json \<lparr>Ctime = 1000, NeedFastRequery = False, IsNil = False, Data = ''v''\<rparr>, 100))], fault = None, now = 1000, trace = [Redis (SET (Request 1) ''k'' (Json \<lparr>Ctime = 1000, NeedFastRequery = False, IsNil = False, Data = ''v''\<rparr>) 100)]\<rparr>"
      and normalOffset = 10 and fastOffset = 5]
  from t [THEN conjunct1] have b: "list_all (proxy_write 1000)
     (appended \<lparr>kv = map_of [], fault = None, now = 1000, trace = []\<rparr>
        (snd (CacheProxy_Set (Some (newCacheProxy (Some Client))) (Request 1)
           \<lparr>NeedForceRefresh = False, NeedCacheRefresh = False, RefreshOffset = 10,
        FastRefreshOffset = 5, ExpiredTime = 100, EmptyExpiredTime = 20\<rparr>
           ''k'' ''v'' \<lparr>kv = map_of [], fault = None, now = 1000, trace = []\<rparr>)))"
    by simp
  from t [THEN conjunct2, THEN conjunct2, THEN conjunct2, of 1011] s
  have r: "fst (RedisCache_Get (cache (newCacheProxy (Some Client))) (Request 2) ''k''
      \<lparr>kv = map_of [(''k'', (Json \<lparr>Ctime = 1000, NeedFastRequery = False, IsNil = False, Data = ''v''\<rparr>, 100))], fault = None, now = 1000, trace = [Redis (SET (Request 1) ''k'' (Json \<lparr>Ctime = 1000, NeedFastRequery = False, IsNil = False, Data = ''v''\<rparr>) 100)]\<rparr>) =
     Return (\<lparr>Ctime = 1000, NeedFastRequery = False, IsNil = False, Data = ''v''\<rparr>, True, None) \<and>
     IsExpire \<lparr>Ctime = 1000, NeedFastRequery = False, IsNil = False, Data = ''v''\<rparr> 10 5 1011"
    by simp
  from t [THEN conjunct2, THEN conjunct2, THEN conjunct2, of 1010] s
  have r2: "\<not> IsExpire \<lparr>Ctime = 1000, NeedFastRequery = False, IsNil = False, Data = ''v''\<rparr> 10 5 1010"
    by simp
  from s a b r r2 show ?thesis by simp
qed

section \<open>Hits\<close>

text \<open>
  C9. When the store read finds the key and the policy has \<^verbatim>\<open>NeedCacheRefresh\<close> (and
  \<^verbatim>\<open>NeedForceRefresh\<close>) false, \<^verbatim>\<open>GetHit\<close> returns the cached payload with the hit flag,
  whatever the offsets, the clock and the age of the value: the only event is the \<^verbatim>\<open>GET\<close>,
  so the origin is not called, nothing is written, no goroutine is started, and the store
  is unchanged.
\<close>

theorem GetHit_hit_without_refresh:
  assumes "key \<noteq> []" and "\<not> NeedForceRefresh c" and "\<not> NeedCacheRefresh c"
    and "RedisCache_Get (cache px) cx key w = (Return (sv, True, None), w1)"
  shows "GetHit (Some px) cx c key getter w = (Return (Data sv, True, None), w1) \<and>
         appended w w1 = [Redis (GET cx key)] \<and> kv w1 = kv w"
proof -
  from RedisCache_Get_found [OF assms(4)] have w1: "w1 = emit (Redis (GET cx key)) w"
    by simp
  from assms have "GetHit (Some px) cx c key getter w = (Return (Data sv, True, None), w1)"
    by (simp add: GetHit_def String_def)
  with w1 show ?thesis by (simp add: appended_def emit_def)
qed

text \<open>
  A value written at 900 is stale at 1000 under the offset 10, and is served all the same
  when \<^verbatim>\<open>NeedCacheRefresh\<close> is false.
\<close>

theorem GetHit_hit_without_refresh_witness:
  "''k'' \<noteq> [] \<and>
   \<not> NeedForceRefresh \<lparr>NeedForceRefresh = False, NeedCacheRefresh = False, RefreshOffset = 10,
        FastRefreshOffset = 5, ExpiredTime = 100, EmptyExpiredTime = 20\<rparr> \<and>
   \<not> NeedCacheRefresh \<lparr>NeedForceRefresh = False, NeedCacheRefresh = False, RefreshOffset = 10,
        FastRefreshOffset = 5, ExpiredTime = 100, EmptyExpiredTime = 20\<rparr> \<and>
   IsExpire \<lparr>Ctime = 900, NeedFastRequery = False, IsNil = False, Data = ''old''\<rparr> 10 5 1000 \<and>
   GetHit (Some (newCacheProxy (Some Client))) (Request 1)
     \<lparr>NeedForceRefresh = False, NeedCacheRefresh = False, RefreshOffset = 10,
        FastRefreshOffset = 5, ExpiredTime = 100, EmptyExpiredTime = 20\<rparr>
     ''k'' (origin_gives ''new'' False)
     \<lparr>kv = map_of [(''k'', (Json \<lparr>Ctime = 900, NeedFastRequery = False, IsNil = False, Data = ''old''\<rparr>, 100))], fault = None, now = 1000, trace = []\<rparr> =
   (Return (''old'', True, None),
    \<lparr>kv = map_of [(''k'', (Json \<lparr>Ctime = 900, NeedFastRequery = False, IsNil = False, Data = ''old''\<rparr>, 100))], fault = None, now = 1000, trace = [Redis (GET (Request 1) ''k'')]\<rparr>)"
proof -
  have h1: "''k'' \<noteq> []" by simp
  have h2: "\<not> NeedForceRefresh \<lparr>NeedForceRefresh = False, NeedCacheRefresh = False, RefreshOffset = 10,
        FastRefreshOffset = 5, ExpiredTime = 100, EmptyExpiredTime = 20\<rparr>" by simp
  have h3: "\<not> NeedCacheRefresh \<lparr>NeedForceRefresh = False, NeedCacheRefresh = False, RefreshOffset = 10,
        FastRefreshOffset = 5, ExpiredTime = 100, EmptyExpiredTime = 20\<rparr>" by simp
  have h4: "RedisCache_Get (cache (newCacheProxy (Some Client))) (Request 1) ''k''
      \<lparr>kv = map_of [(''k'', (Json \<lparr>Ctime = 900, NeedFastRequery = False, IsNil = False, Data = ''old''\<rparr>, 100))], fault = None, now = 1000, trace = []\<rparr> =
    (Return (\<lparr>Ctime = 900, NeedFastRequery = False, IsNil = False, Data = ''old''\<rparr>, True, None),
     \<lparr>kv = map_of [(''k'', (Json \<lparr>Ctime = 900, NeedFastRequery = False, IsNil = False, Data = ''old''\<rparr>, 100))], fault = None, now = 1000, trace = [Redis (GET (Request 1) ''k'')]\<rparr>)"
    by (simp add: model_defs)
  from GetHit_hit_without_refresh [OF h1 h2 h3 h4, of "origin_gives ''new'' False"]
  show ?thesis by (simp add: time_defs)
qed

text \<open>
  With \<^verbatim>\<open>NeedCacheRefresh\<close> set, a found value that is not stale is returned as it is, and a
  stale one is returned as it is after the refresh goroutine has been started.
\<close>

lemma GetHit_hit_with_refresh:
  assumes "key \<noteq> []" and "\<not> NeedForceRefresh c" and "NeedCacheRefresh c"
    and "RedisCache_Get (cache px) cx key w = (Return (sv, True, None), w1)"
  shows "GetHit (Some px) cx c key getter w =
           (Return (Data sv, True, None),
            if IsExpire sv (RefreshOffset c) (FastRefreshOffset c) (now w)
            then go (Refresh px c key getter) w1 else w1)"
proof -
  from RedisCache_Get_found [OF assms(4)] have "now w1 = now w"
    by (simp add: emit_def)
  with assms show ?thesis by (simp add: GetHit_def String_def)
qed

section \<open>Misses\<close>

text \<open>
  C4, as the code has it. \<^verbatim>\<open>GetHit\<close> tells a miss from a hit by the found flag of the
  store read alone (\<^verbatim>\<open>if !exist\<close>); it never looks at \<open>IsNil\<close>. A record that is present
  under \<open>k\<close> and decodes to a value with \<open>IsNil\<close> true (the text \<^verbatim>\<open>{"is_nil":true,"data":"x"}\<close>)
  is reported found by the adapter and served as a hit: the caller gets \<open>x\<close> with the hit
  flag true, the getter is not called and no goroutine is started.
\<close>

theorem GetHit_IsNil_record_counterexample:
  "IsNil \<lparr>Ctime = 0, NeedFastRequery = False, IsNil = True, Data = ''x''\<rparr> \<and>
   fst (RedisCache_Get (cache (newCacheProxy (Some Client))) (Request 1) ''k''
      \<lparr>kv = map_of [(''k'', (Json \<lparr>Ctime = 0, NeedFastRequery = False, IsNil = True, Data = ''x''\<rparr>, 100))], fault = None, now = 1000, trace = []\<rparr>) =
     Return (\<lparr>Ctime = 0, NeedFastRequery = False, IsNil = True, Data = ''x''\<rparr>, True, None) \<and>
   GetHit (Some (newCacheProxy (Some Client))) (Request 1)
     \<lparr>NeedForceRefresh = False, NeedCacheRefresh = False, RefreshOffset = 10,
        FastRefreshOffset = 5, ExpiredTime = 100, EmptyExpiredTime = 20\<rparr>
     ''k'' (origin_gives ''v'' False)
     \<lparr>kv = map_of [(''k'', (Json \<lparr>Ctime = 0, NeedFastRequery = False, IsNil = True, Data = ''x''\<rparr>, 100))], fault = None, now = 1000, trace = []\<rparr> =
   (Return (''x'', True, None),
    \<lparr>kv = map_of [(''k'', (Json \<lparr>Ctime = 0, NeedFastRequery = False, IsNil = True, Data = ''x''\<rparr>, 100))], fault = None, now = 1000, trace = [Redis (GET (Request 1) ''k'')]\<rparr>)"
  by (simp add: model_defs)

text \<open>
  C4, amended. For a non-empty key without force refresh, when the store read reports the
  key not found, with no error (there is no record under the key; the adapter then hands
  back a value with \<open>IsNil\<close> set), and the getter succeeds, \<^verbatim>\<open>GetHit\<close> calls the getter
  before it returns, returns the fetched payload with the hit flag false, and starts the
  write-back goroutine. That goroutine, whenever it runs, issues one \<^verbatim>\<open>SET\<close> under
  \<^verbatim>\<open>context.Background()\<close>; a failure of the write is logged and the goroutine ends
  normally.
\<close>

theorem GetHit_miss:
  assumes "key \<noteq> []" and "\<not> NeedForceRefresh c"
    and "RedisCache_Get (cache px) cx key w = (Return (sv, False, None), w1)"
    and "getter cx key = (data, nfr, None)"
  shows "IsNil sv \<and>
    GetHit (Some px) cx c key getter w =
      (Return (data, False, None),
       go (WriteBack px c key data nfr) (emit (OriginGet cx key) w1)) \<and>
    appended w (go (WriteBack px c key data nfr) (emit (OriginGet cx key) w1)) =
      [Redis (GET cx key), OriginGet cx key, Go (WriteBack px c key data nfr)] \<and>
    run (WriteBack px c key data nfr) w2 =
      (let sv' = \<lparr>Ctime = now w2, NeedFastRequery = nfr, IsNil = False, Data = data\<rparr>;
           ttl = (if data = [] then EmptyExpiredTime c else ExpiredTime c);
           w3 = emit (Redis (SET Background key (Json sv') ttl)) w2
       in case fault w2 of
            None \<Rightarrow> (Return (), w3\<lparr>kv := (kv w2)(key \<mapsto> (Json sv', ttl))\<rparr>)
          | Some e \<Rightarrow> (Return (), logger_Error (''cacheProxy setErr:'' @ Error e) w3))"
proof -
  note m = RedisCache_Get_miss [OF assms(3)]
  from m have nil: "IsNil sv" by (simp add: StringView0_def)
  from m have w1: "w1 = emit (Redis (GET cx key)) w" by simp
  from m have rdb: "rdb (cache px) \<noteq> None" by simp
  from assms have g: "GetHit (Some px) cx c key getter w =
      (Return (data, False, None),
       go (WriteBack px c key data nfr) (emit (OriginGet cx key) w1))"
    by (simp add: GetHit_def getResource_ok)
  have a: "appended w (go (WriteBack px c key data nfr) (emit (OriginGet cx key) w1)) =
      [Redis (GET cx key), OriginGet cx key, Go (WriteBack px c key data nfr)]"
    by (simp add: w1 appended_def go_def emit_def)
  have r: "run (WriteBack px c key data nfr) w2 =
      (let sv' = \<lparr>Ctime = now w2, NeedFastRequery = nfr, IsNil = False, Data = data\<rparr>;
           ttl = (if data = [] then EmptyExpiredTime c else ExpiredTime c);
           w3 = emit (Redis (SET Background key (Json sv') ttl)) w2
       in case fault w2 of
            None \<Rightarrow> (Return (), w3\<lparr>kv := (kv w2)(key \<mapsto> (Json sv', ttl))\<rparr>)
          | Some e \<Rightarrow> (Return (), logger_Error (''cacheProxy setErr:'' @ Error e) w3))"
    using rdb assms(1) by (simp add: setData_eq Let_def split: option.splits)
  from nil g a r show ?thesis by blast
qed

text \<open>
  A cold key \<open>k\<close> and a getter that gives \<open>v\<close>: the caller gets \<open>v\<close> and the goroutine is
  started. Run against a store that fails, the goroutine logs the failure and returns.
\<close>

theorem GetHit_miss_witness:
  "''k'' \<noteq> [] \<and>
   \<not> NeedForceRefresh \<lparr>NeedForceRefresh = False, NeedCacheRefresh = False, RefreshOffset = 10,
        FastRefreshOffset = 5, ExpiredTime = 100, EmptyExpiredTime = 20\<rparr> \<and>
   RedisCache_Get (cache (newCacheProxy (Some Client))) (Request 1) ''k'' \<lparr>kv = map_of [], fault = None, now = 1000, trace = []\<rparr> =
     (Return (\<lparr>Ctime = 0, NeedFastRequery = False, IsNil = True, Data = ''''\<rparr>, False, None),
      \<lparr>kv = map_of [], fault = None, now = 1000, trace = [Redis (GET (Request 1) ''k'')]\<rparr>) \<and>
   origin_gives ''v'' False (Request 1) ''k'' = (''v'', False, None) \<and>
   GetHit (Some (newCacheProxy (Some Client))) (Request 1)
     \<lparr>NeedForceRefresh = False, NeedCacheRefresh = False, RefreshOffset = 10,
        FastRefreshOffset = 5, ExpiredTime = 100, EmptyExpiredTime = 20\<rparr>
     ''k'' (origin_gives ''v'' False) \<lparr>kv = map_of [], fault = None, now = 1000, trace = []\<rparr> =
   (Return (''v'', False, None),
    \<lparr>kv = map_of [], fault = None, now = 1000, trace = [Redis (GET (Request 1) ''k''), OriginGet (Request 1) ''k'', Go (WriteBack (newCacheProxy (Some Client)) \<lparr>NeedForceRefresh = False, NeedCacheRefresh = False, RefreshOffset = 10,
        FastRefreshOffset = 5, ExpiredTime = 100, EmptyExpiredTime = 20\<rparr> ''k'' ''v'' False)]\<rparr>) \<and>
   run (WriteBack (newCacheProxy (Some Client))
          \<lparr>NeedForceRefresh = False, NeedCacheRefresh = False, RefreshOffset = 10,
        FastRefreshOffset = 5, ExpiredTime = 100, EmptyExpiredTime = 20\<rparr> ''k'' ''v'' False)
     \<lparr>kv = map_of [], fault = Some (Failure ''store down''), now = 1001, trace = []\<rparr> =
   (Return (),
    \<lparr>kv = map_of [], fault = Some (Failure ''store down''), now = 1001, trace = [Redis (SET Background ''k'' (Json \<lparr>Ctime = 1001, NeedFastRequery = False, IsNil = False, Data = ''v''\<rparr>) 100), LogError ''cacheProxy setErr:store down'']\<rparr>)"
proof -
  have h1: "''k'' \<noteq> []" by simp
  have h2: "\<not> NeedForceRefresh \<lparr>NeedForceRefresh = False, NeedCacheRefresh = False, RefreshOffset = 10,
        FastRefreshOffset = 5, ExpiredTime = 100, EmptyExpiredTime = 20\<rparr>" by simp
  have h3: "RedisCache_Get (cache (newCacheProxy (Some Client))) (Request 1) ''k'' \<lparr>kv = map_of [], fault = None, now = 1000, trace = []\<rparr> =
     (Return (\<lparr>Ctime = 0, NeedFastRequery = False, IsNil = True, Data = ''''\<rparr>, False, None),
      \<lparr>kv = map_of [], fault = None, now = 1000, trace = [Redis (GET (Request 1) ''k'')]\<rparr>)"
    by (simp add: model_defs)
  have h4: "origin_gives ''v'' False (Request 1) ''k'' = (''v'', False, None)"
    by (simp add: origin_gives_def)
  note t = GetHit_miss [where getter = "origin_gives ''v'' False"
      and ?w2.0 = "\<lparr>kv = map_of [], fault = Some (Failure ''store down''), now = 1001, trace = []\<rparr>",
      OF h1 h2 h3 h4]
  from h3 h4 t show ?thesis
    by (simp add: go_def emit_def logger_Error_def)
qed

section \<open>Set and Remove\<close>

text \<open>
  C7, as the code has it. The claim holds for every non-empty key only: on the empty key the
  adapter returns \<^verbatim>\<open>ErrInvalidKey\<close> before anything is written.
\<close>

theorem Set_empty_key_counterexample:
  "CacheProxy_Set (Some (newCacheProxy (Some Client))) (Request 1)
     \<lparr>NeedForceRefresh = False, NeedCacheRefresh = False, RefreshOffset = 10,
        FastRefreshOffset = 5, ExpiredTime = 100, EmptyExpiredTime = 20\<rparr>
     '''' ''v'' \<lparr>kv = map_of [], fault = None, now = 1000, trace = []\<rparr> =
   (Return (Some ErrInvalidKey), \<lparr>kv = map_of [], fault = None, now = 1000, trace = []\<rparr>)"
  by (simp add: model_defs)

text \<open>
  C7, amended. For every non-empty key and every payload, \<^verbatim>\<open>Set\<close> issues one \<^verbatim>\<open>SET\<close> of a
  value with \<open>Ctime\<close> the clock, \<open>NeedFastRequery\<close> false, \<open>IsNil\<close> false and the payload as
  \<open>Data\<close>, with expiration \<^verbatim>\<open>EmptyExpiredTime\<close> when the payload is empty and
  \<^verbatim>\<open>ExpiredTime\<close> otherwise, and returns the client's answer; every other write of the proxy,
  in the caller's goroutine or in another, goes through \<^verbatim>\<open>setData\<close> and chooses the
  expiration by the same rule; \<^verbatim>\<open>Remove\<close> issues one \<^verbatim>\<open>DEL\<close>, after which the key is
  absent, and returns the client's answer, which is no error when the store is reachable,
  whether the key existed or not.
\<close>

theorem Set_Remove_nonempty_key:
  assumes "rdb (cache px) \<noteq> None" and "key \<noteq> []"
  shows "CacheProxy_Set (Some px) cx c key payload w =
           (let sv = \<lparr>Ctime = now w, NeedFastRequery = False, IsNil = False, Data = payload\<rparr>;
                ttl = (if payload = [] then EmptyExpiredTime c else ExpiredTime c);
                w1 = emit (Redis (SET cx key (Json sv) ttl)) w
            in case fault w of
                 None \<Rightarrow> (Return None, w1\<lparr>kv := (kv w)(key \<mapsto> (Json sv, ttl))\<rparr>)
               | Some e \<Rightarrow> (Return (Some e), w1)) \<and>
         setData px cx' c key payload f w =
           (let sv = \<lparr>Ctime = now w, NeedFastRequery = f, IsNil = False, Data = payload\<rparr>;
                ttl = (if payload = [] then EmptyExpiredTime c else ExpiredTime c);
                w1 = emit (Redis (SET cx' key (Json sv) ttl)) w
            in case fault w of
                 None \<Rightarrow> (Return None, w1\<lparr>kv := (kv w)(key \<mapsto> (Json sv, ttl))\<rparr>)
               | Some e \<Rightarrow> (Return (Some e), w1)) \<and>
         CacheProxy_Remove (Some px) cx c key w =
           (let w1 = emit (Redis (DEL cx key)) w
            in case fault w of
                 None \<Rightarrow> (Return None, w1\<lparr>kv := (kv w)(key := None)\<rparr>)
               | Some e \<Rightarrow> (Return (Some e), w1))"
proof -
  have r: "CacheProxy_Remove (Some px) cx c key w =
           (let w1 = emit (Redis (DEL cx key)) w
            in case fault w of
                 None \<Rightarrow> (Return None, w1\<lparr>kv := (kv w)(key := None)\<rparr>)
               | Some e \<Rightarrow> (Return (Some e), w1))"
    using assms
    by (auto simp: CacheProxy_Remove_def RedisCache_Remove_def rdb_Del_def Let_def
        split: option.splits)
  from assms r show ?thesis
    by (simp add: CacheProxy_Set_def setData_eq)
qed

text \<open>
  An empty payload under key \<open>k\<close> is written with the expiration 20 of empty values, a
  payload \<open>v\<close> with the expiration 100; removing a key that is not there is no error.
\<close>

theorem Set_Remove_nonempty_key_witness:
  "rdb (cache (newCacheProxy (Some Client))) \<noteq> None \<and> ''k'' \<noteq> [] \<and>
   CacheProxy_Set (Some (newCacheProxy (Some Client))) (Request 1)
     \<lparr>NeedForceRefresh = False, NeedCacheRefresh = False, RefreshOffset = 10,
        FastRefreshOffset = 5, ExpiredTime = 100, EmptyExpiredTime = 20\<rparr>
     ''k'' '''' \<lparr>kv = map_of [], fault = None, now = 1000, trace = []\<rparr> =
   (Return None,
    \<lparr>kv = map_of [(''k'', (Json \<lparr>Ctime = 1000, NeedFastRequery = False, IsNil = False, Data = ''''\<rparr>, 20))], fault = None, now = 1000, trace = [Redis (SET (Request 1) ''k'' (Json \<lparr>Ctime = 1000, NeedFastRequery = False, IsNil = False, Data = ''''\<rparr>) 20)]\<rparr>) \<and>
   setData (newCacheProxy (Some Client)) Background
     \<lparr>NeedForceRefresh = False, NeedCacheRefresh = False, RefreshOffset = 10,
        FastRefreshOffset = 5, ExpiredTime = 100, EmptyExpiredTime = 20\<rparr>
     ''k'' ''v'' True \<lparr>kv = map_of [], fault = None, now = 1000, trace = []\<rparr> =
   (Return None,
    \<lparr>kv = map_of [(''k'', (Json \<lparr>Ctime = 1000, NeedFastRequery = True, IsNil = False, Data = ''v''\<rparr>, 100))], fault = None, now = 1000, trace = [Redis (SET Background ''k'' (Json \<lparr>Ctime = 1000, NeedFastRequery = True, IsNil = False, Data = ''v''\<rparr>) 100)]\<rparr>) \<and>
   CacheProxy_Remove (Some (newCacheProxy (Some Client))) (Request 1)
     \<lparr>NeedForceRefresh = False, NeedCacheRefresh = False, RefreshOffset = 10,
        FastRefreshOffset = 5, ExpiredTime = 100, EmptyExpiredTime = 20\<rparr>
     ''k'' \<lparr>kv = map_of [], fault = None, now = 1000, trace = []\<rparr> =
   (Return None, \<lparr>kv = map_of [], fault = None, now = 1000, trace = [Redis (DEL (Request 1) ''k'')]\<rparr>)"
proof -
  have h1: "rdb (cache (newCacheProxy (Some Client))) \<noteq> None"
    by (simp add: newCacheProxy_def NewRedisAdaptor_def)
  have h2: "''k'' \<noteq> []" by simp
  note t = Set_Remove_nonempty_key [OF h1 h2]
  note t1 = t [THEN conjunct1, of "(Request 1)"
      "\<lparr>NeedForceRefresh = False, NeedCacheRefresh = False, RefreshOffset = 10,
        FastRefreshOffset = 5, ExpiredTime = 100, EmptyExpiredTime = 20\<rparr>" "''''" "\<lparr>kv = map_of [], fault = None, now = 1000, trace = []\<rparr>"]
  note t2 = t [THEN conjunct2, THEN conjunct1, of Background
      "\<lparr>NeedForceRefresh = False, NeedCacheRefresh = False, RefreshOffset = 10,
        FastRefreshOffset = 5, ExpiredTime = 100, EmptyExpiredTime = 20\<rparr>" "''v''" True "\<lparr>kv = map_of [], fault = None, now = 1000, trace = []\<rparr>"]
  note t3 = t [THEN conjunct2, THEN conjunct2, of "(Request 1)"
      "\<lparr>NeedForceRefresh = False, NeedCacheRefresh = False, RefreshOffset = 10,
        FastRefreshOffset = 5, ExpiredTime = 100, EmptyExpiredTime = 20\<rparr>" "\<lparr>kv = map_of [], fault = None, now = 1000, trace = []\<rparr>"]
  have k: "(map_of [])(''k'' := None) = (map_of [] :: string \<Rightarrow> (rval \<times> duration) option)"
    by (rule ext) simp
  from h1 t1 t2 t3 show ?thesis
    by (simp add: emit_def Let_def k)
qed

section \<open>The empty key\<close>

text \<open>
  C8, as the code has it. \<^verbatim>\<open>Remove\<close> (and \<^verbatim>\<open>Set\<close>, see above) hand the adapter's
  \<^verbatim>\<open>ErrInvalidKey\<close> to the caller when the key is empty.
\<close>

theorem Remove_empty_key_counterexample:
  "fst (CacheProxy_Remove (Some (newCacheProxy (Some Client))) (Request 1)
     \<lparr>NeedForceRefresh = False, NeedCacheRefresh = False, RefreshOffset = 10,
        FastRefreshOffset = 5, ExpiredTime = 100, EmptyExpiredTime = 20\<rparr>
     '''' \<lparr>kv = map_of [], fault = None, now = 1000, trace = []\<rparr>) =
   Return (Some ErrInvalidKey)"
  by (simp add: model_defs)

text \<open>
  C8, amended. \<^verbatim>\<open>GetHit\<close> with the empty key returns the empty payload, the hit flag false
  and no error, and leaves the world as it was: no store command, no call of the getter.
  \<^verbatim>\<open>Set\<close> and \<^verbatim>\<open>Remove\<close> with the empty key return \<^verbatim>\<open>ErrInvalidKey\<close>, and leave the world
  as it was too.
\<close>

theorem empty_key:
  "GetHit (Some px) cx c [] getter w = (Return ([], False, None), w) \<and>
   (rdb (cache px) \<noteq> None \<longrightarrow>
      CacheProxy_Set (Some px) cx c [] v w = (Return (Some ErrInvalidKey), w) \<and>
      CacheProxy_Remove (Some px) cx c [] w = (Return (Some ErrInvalidKey), w))"
  by (auto simp: GetHit_def CacheProxy_Set_def CacheProxy_Remove_def setData_empty_key
      RedisCache_Remove_def)

theorem empty_key_witness:
  "GetHit (Some (newCacheProxy (Some Client))) (Request 1)
     \<lparr>NeedForceRefresh = False, NeedCacheRefresh = True, RefreshOffset = 10,
        FastRefreshOffset = 5, ExpiredTime = 100, EmptyExpiredTime = 20\<rparr>
     '''' (origin_gives ''v'' False) \<lparr>kv = map_of [(''k'', (Json \<lparr>Ctime = 900, NeedFastRequery = False, IsNil = False, Data = ''old''\<rparr>, 100))], fault = None, now = 1000, trace = []\<rparr> =
   (Return ('''', False, None), \<lparr>kv = map_of [(''k'', (Json \<lparr>Ctime = 900, NeedFastRequery = False, IsNil = False, Data = ''old''\<rparr>, 100))], fault = None, now = 1000, trace = []\<rparr>) \<and>
   rdb (cache (newCacheProxy (Some Client))) \<noteq> None \<and>
   CacheProxy_Set (Some (newCacheProxy (Some Client))) (Request 1)
     \<lparr>NeedForceRefresh = False, NeedCacheRefresh = True, RefreshOffset = 10,
        FastRefreshOffset = 5, ExpiredTime = 100, EmptyExpiredTime = 20\<rparr>
     '''' ''v'' \<lparr>kv = map_of [(''k'', (Json \<lparr>Ctime = 900, NeedFastRequery = False, IsNil = False, Data = ''old''\<rparr>, 100))], fault = None, now = 1000, trace = []\<rparr> =
   (Return (Some ErrInvalidKey), \<lparr>kv = map_of [(''k'', (Json \<lparr>Ctime = 900, NeedFastRequery = False, IsNil = False, Data = ''old''\<rparr>, 100))], fault = None, now = 1000, trace = []\<rparr>) \<and>
   CacheProxy_Remove (Some (newCacheProxy (Some Client))) (Request 1)
     \<lparr>NeedForceRefresh = False, NeedCacheRefresh = True, RefreshOffset = 10,
        FastRefreshOffset = 5, ExpiredTime = 100, EmptyExpiredTime = 20\<rparr>
     '''' \<lparr>kv = map_of [(''k'', (Json \<lparr>Ctime = 900, NeedFastRequery = False, IsNil = False, Data = ''old''\<rparr>, 100))], fault = None, now = 1000, trace = []\<rparr> =
   (Return (Some ErrInvalidKey), \<lparr>kv = map_of [(''k'', (Json \<lparr>Ctime = 900, NeedFastRequery = False, IsNil = False, Data = ''old''\<rparr>, 100))], fault = None, now = 1000, trace = []\<rparr>)"
proof -
  have h: "rdb (cache (newCacheProxy (Some Client))) \<noteq> None"
    by (simp add: newCacheProxy_def NewRedisAdaptor_def)
  from h empty_key [of "(newCacheProxy (Some Client))" "(Request 1)"
      "\<lparr>NeedForceRefresh = False, NeedCacheRefresh = True, RefreshOffset = 10,
        FastRefreshOffset = 5, ExpiredTime = 100, EmptyExpiredTime = 20\<rparr>"
      "origin_gives ''v'' False" "\<lparr>kv = map_of [(''k'', (Json \<lparr>Ctime = 900, NeedFastRequery = False, IsNil = False, Data = ''old''\<rparr>, 100))], fault = None, now = 1000, trace = []\<rparr>" "''v''"]
  show ?thesis by simp
qed

section \<open>Force refresh\<close>

text \<open>
  Under \<^verbatim>\<open>NeedForceRefresh\<close>, with a getter that succeeds, \<^verbatim>\<open>GetHit\<close> does not read the
  store: it calls the getter, issues the \<^verbatim>\<open>SET\<close> under \<^verbatim>\<open>context.Background()\<close> before it
  returns, and returns the fetched payload with the hit flag false, or the error of the
  write.
\<close>

lemma GetHit_force_refresh:
  assumes "key \<noteq> []" and "NeedForceRefresh c" and "rdb (cache px) \<noteq> None"
    and "getter cx key = (data, nfr, None)"
  shows "GetHit (Some px) cx c key getter w =
           (let sv = \<lparr>Ctime = now w, NeedFastRequery = nfr, IsNil = False, Data = data\<rparr>;
                ttl = (if data = [] then EmptyExpiredTime c else ExpiredTime c);
                w2 = emit (Redis (SET Background key (Json sv) ttl)) (emit (OriginGet cx key) w)
            in case fault w of
                 None \<Rightarrow> (Return (data, False, None), w2\<lparr>kv := (kv w)(key \<mapsto> (Json sv, ttl))\<rparr>)
               | Some e \<Rightarrow> (Return ([], False, Some e), w2))"
  using assms
  by (simp add: GetHit_def getResource_ok setData_eq Let_def emit_def split: option.splits)

text \<open>
  C5 at a getter that fails. The key \<open>k\<close> holds a fresh value, the policy forces a refresh,
  the getter returns an error: the call does not return that error, it panics in
  \<^verbatim>\<open>getResource\<close>, after the call of the getter and before any store command.
\<close>

theorem GetHit_force_origin_error_panics:
  "GetHit (Some (newCacheProxy (Some Client))) (Request 1)
     \<lparr>NeedForceRefresh = True, NeedCacheRefresh = False, RefreshOffset = 10,
        FastRefreshOffset = 5, ExpiredTime = 100, EmptyExpiredTime = 20\<rparr>
     ''k'' (origin_fails (Failure ''origin down''))
     \<lparr>kv = map_of [(''k'', (Json \<lparr>Ctime = 995, NeedFastRequery = False, IsNil = False, Data = ''old''\<rparr>, 100))], fault = None, now = 1000, trace = []\<rparr> =
   (Panic ''interface conversion: interface {} is nil, not string'',
    \<lparr>kv = map_of [(''k'', (Json \<lparr>Ctime = 995, NeedFastRequery = False, IsNil = False, Data = ''old''\<rparr>, 100))], fault = None, now = 1000, trace = [OriginGet (Request 1) ''k'']\<rparr>)"
  by (simp add: model_defs)

section \<open>Origin errors on the caller's path\<close>

text \<open>
  Whenever the getter returns an error and the fetch is on the caller's path (force
  refresh, or a reported miss), \<^verbatim>\<open>GetHit\<close> panics; it never returns the error.
\<close>

lemma GetHit_origin_error_panics:
  assumes "key \<noteq> []" and "getter cx key = (d, f, Some e)"
    and "NeedForceRefresh c \<or>
         fst (RedisCache_Get (cache px) cx key w) = Return (sv, False, None)"
  shows "fst (GetHit (Some px) cx c key getter w) =
           Panic ''interface conversion: interface {} is nil, not string''"
proof (cases "NeedForceRefresh c")
  case True
  with assms show ?thesis by (simp add: GetHit_def getResource_error)
next
  case False
  with assms(3) obtain w1 where
    "RedisCache_Get (cache px) cx key w = (Return (sv, False, None), w1)"
    by (cases "RedisCache_Get (cache px) cx key w") auto
  with False assms(1,2) show ?thesis by (simp add: GetHit_def getResource_error)
qed

text \<open>
  C2 at a cold key. The store has no record of \<open>k\<close>, the getter returns an error: the call
  reads the store, calls the getter and panics. The caller gets no error value.
\<close>

theorem GetHit_miss_origin_error_panics:
  "GetHit (Some (newCacheProxy (Some Client))) (Request 1)
     \<lparr>NeedForceRefresh = False, NeedCacheRefresh = False, RefreshOffset = 10,
        FastRefreshOffset = 5, ExpiredTime = 100, EmptyExpiredTime = 20\<rparr>
     ''k'' (origin_fails (Failure ''origin down'')) \<lparr>kv = map_of [], fault = None, now = 1000, trace = []\<rparr> =
   (Panic ''interface conversion: interface {} is nil, not string'',
    \<lparr>kv = map_of [], fault = None, now = 1000, trace = [Redis (GET (Request 1) ''k''), OriginGet (Request 1) ''k'']\<rparr>)"
  by (simp add: model_defs)

section \<open>The refresh goroutine\<close>

text \<open>
  With a getter that succeeds, the refresh goroutine calls it and rewrites the key under
  \<^verbatim>\<open>context.Background()\<close>; a failure of the write is logged. With a getter that returns an
  error, the goroutine panics in \<^verbatim>\<open>getResource\<close>: nothing is logged and nothing recovers the
  panic.
\<close>

lemma run_Refresh_ok:
  assumes "key \<noteq> []" and "rdb (cache px) \<noteq> None" and "getter Background key = (data, nfr, None)"
  shows "run (Refresh px c key getter) w =
           (let sv = \<lparr>Ctime = now w, NeedFastRequery = nfr, IsNil = False, Data = data\<rparr>;
                ttl = (if data = [] then EmptyExpiredTime c else ExpiredTime c);
                w2 = emit (Redis (SET Background key (Json sv) ttl))
                       (emit (OriginGet Background key) w)
            in case fault w of
                 None \<Rightarrow> (Return (), w2\<lparr>kv := (kv w)(key \<mapsto> (Json sv, ttl))\<rparr>)
               | Some e \<Rightarrow>
                   (Return (), logger_Error (''cacheProxy refresh setData err:'' @ Error e) w2))"
  using assms
  by (simp add: getResource_ok setData_eq Let_def emit_def split: option.splits)

lemma run_Refresh_origin_error:
  assumes "getter Background key = (d, f, Some e)"
  shows "run (Refresh px c key getter) w =
           (Panic ''interface conversion: interface {} is nil, not string'',
            emit (OriginGet Background key) w)"
  using assms by (simp add: getResource_error)

text \<open>
  C3 at a getter that fails. The key \<open>k\<close> holds a value written at 900, stale at 1000 under
  the offset 10, and the policy allows the background refresh: the caller gets the old
  payload with the hit flag and the refresh goroutine is started. When that goroutine
  runs, the error of the getter is not logged: the goroutine panics.
\<close>

theorem refresh_origin_error_panics:
  "GetHit (Some (newCacheProxy (Some Client))) (Request 1)
     \<lparr>NeedForceRefresh = False, NeedCacheRefresh = True, RefreshOffset = 10,
        FastRefreshOffset = 5, ExpiredTime = 100, EmptyExpiredTime = 20\<rparr>
     ''k'' (origin_fails (Failure ''origin down''))
     \<lparr>kv = map_of [(''k'', (Json \<lparr>Ctime = 900, NeedFastRequery = False, IsNil = False, Data = ''old''\<rparr>, 100))], fault = None, now = 1000, trace = []\<rparr> =
   (Return (''old'', True, None),
    \<lparr>kv = map_of [(''k'', (Json \<lparr>Ctime = 900, NeedFastRequery = False, IsNil = False, Data = ''old''\<rparr>, 100))], fault = None, now = 1000, trace = [Redis (GET (Request 1) ''k''), Go (Refresh (newCacheProxy (Some Client)) \<lparr>NeedForceRefresh = False, NeedCacheRefresh = True, RefreshOffset = 10,
        FastRefreshOffset = 5, ExpiredTime = 100, EmptyExpiredTime = 20\<rparr> ''k'' (origin_fails (Failure ''origin down'')))]\<rparr>) \<and>
   run (Refresh (newCacheProxy (Some Client))
          \<lparr>NeedForceRefresh = False, NeedCacheRefresh = True, RefreshOffset = 10,
        FastRefreshOffset = 5, ExpiredTime = 100, EmptyExpiredTime = 20\<rparr>
          ''k'' (origin_fails (Failure ''origin down'')))
     \<lparr>kv = map_of [(''k'', (Json \<lparr>Ctime = 900, NeedFastRequery = False, IsNil = False, Data = ''old''\<rparr>, 100))], fault = None, now = 1001, trace = []\<rparr> =
   (Panic ''interface conversion: interface {} is nil, not string'',
    \<lparr>kv = map_of [(''k'', (Json \<lparr>Ctime = 900, NeedFastRequery = False, IsNil = False, Data = ''old''\<rparr>, 100))], fault = None, now = 1001, trace = [OriginGet Background ''k'']\<rparr>)"
  by (simp add: model_defs time_defs)

end
